theory Spec2Isabelle
  imports Main "HOL-Library.AList"
begin

section \<open>Values, files and the console\<close>

text \<open>
  The program is \<^verbatim>\<open>mqtt-cli.py\<close>. Its configuration is the module global
  \<^verbatim>\<open>DEFAULT_CONFIG_SCHEMA\<close>: a Python dict at first, and after a load whatever value
  \<^verbatim>\<open>json.load\<close> returned. Every value the program can put there comes from the
  literal, from \<^verbatim>\<open>json.load\<close>, or from the \<^verbatim>\<open>str\<close> and \<^verbatim>\<open>int\<close> arguments of the two
  setters, so a configuration value is a JSON value. Floating point numbers are left out
  of the embedding. A dict keeps its insertion order, so it is an association list.
\<close>

datatype json =
    JNull
  | JBool bool
  | JInt int
  | JStr string
  | JArr "json list"
  | JObj "(string \<times> json) list"

text \<open>The exceptions that can leave the program's own code, and those of the client library.\<close>

datatype py_error =
    KeyError string
  | TypeError
  | JSONDecodeError
  | ConnectionRefusedError
  | OSError
  | ValueError
  | KeyboardInterrupt

text \<open>
  \<^verbatim>\<open>d[k]\<close> for a string key: a dict raises \<^verbatim>\<open>KeyError\<close> on a missing key, every other JSON
  value raises \<^verbatim>\<open>TypeError\<close> (lists and strings want integer indices, the rest is not
  subscriptable).
\<close>

fun subscript :: "json \<Rightarrow> string \<Rightarrow> py_error + json" where
  "subscript (JObj d) k = (case map_of d k of None \<Rightarrow> Inl (KeyError k) | Some v \<Rightarrow> Inr v)"
| "subscript _ k = Inl TypeError"

text \<open>
  \<^verbatim>\<open>d[k] = v\<close> for a string key: a dict replaces the value of an existing key in place and
  appends a new key at the end; every other JSON value raises \<^verbatim>\<open>TypeError\<close>.
\<close>

fun store_subscript :: "json \<Rightarrow> string \<Rightarrow> json \<Rightarrow> py_error + json" where
  "store_subscript (JObj d) k v = Inr (JObj (AList.update k v d))"
| "store_subscript _ k v = Inl TypeError"

text \<open>Python's truth value of a configuration value, as \<^verbatim>\<open>if\<close> and \<^verbatim>\<open>and\<close> test it.\<close>

fun truthy :: "json \<Rightarrow> bool" where
  "truthy JNull = False"
| "truthy (JBool b) = b"
| "truthy (JInt i) = (i \<noteq> 0)"
| "truthy (JStr s) = (s \<noteq> [])"
| "truthy (JArr xs) = (xs \<noteq> [])"
| "truthy (JObj d) = (d \<noteq> [])"

text \<open>
  The text of the configuration file. The \<^verbatim>\<open>json\<close> module belongs to the standard
  library, not to the program, and is modelled by its contract on the values above: a file
  holds either a JSON document, identified with the value it denotes, or some other text;
  \<^verbatim>\<open>json.dump\<close> writes the document of a value and \<^verbatim>\<open>json.load\<close> reads a document back
  and raises \<^verbatim>\<open>JSONDecodeError\<close> on any other text.
\<close>

datatype file_text = Json_document json | Not_json string

definition json_dump :: "json \<Rightarrow> file_text" where
  "json_dump v = Json_document v"

fun json_load :: "file_text \<Rightarrow> py_error + json" where
  "json_load (Json_document v) = Inr v"
| "json_load (Not_json t) = Inl JSONDecodeError"

text \<open>
  A console line is the tag of \<^verbatim>\<open>pr_inf\<close>, \<^verbatim>\<open>pr_err\<close> or \<^verbatim>\<open>pr_war\<close> and the pieces of its
  f-string: literal text, and values formatted by \<^verbatim>\<open>str\<close>.
\<close>

datatype level = Tag_INF | Tag_ERR | Tag_WAR

datatype frag = Lit string | Val json

text \<open>
  The calls the program makes on the paho client, in the order it makes them. The four
  callback assignments are recorded too; they cannot raise.
\<close>

datatype call =
    Client (client_id: json) (protocol: json) (transport: json) (userdata: json)
      (clean_session: json)
  | Set_on_connect
  | Set_on_message
  | Set_on_subscribe
  | Set_on_log
  | Username_pw_set json json
  | Connect json json
  | Publish string string int bool
  | Subscribe string
  | Loop_start
  | Loop_stop

text \<open>
  The state of one run: the file at \<^verbatim>\<open>CONFIG_FILE\<close> (\<open>None\<close> when it does not exist), the
  current value of the global \<^verbatim>\<open>DEFAULT_CONFIG_SCHEMA\<close>, the console, and the calls made on
  the client so far. Opening and writing the file are taken to succeed.
\<close>

record state =
  config_file :: "file_text option"
  schema :: json
  console :: "(level \<times> frag list) list"
  client_calls :: "call list"

text \<open>A statement either completes or raises; both leave a state behind.\<close>

datatype outcome = Done state | Raised py_error state

fun state_of :: "outcome \<Rightarrow> state" where
  "state_of (Done s) = s"
| "state_of (Raised e s) = s"

fun andthen :: "outcome \<Rightarrow> (state \<Rightarrow> outcome) \<Rightarrow> outcome" where
  "andthen (Done s) f = f s"
| "andthen (Raised e s) f = Raised e s"

text \<open>Reading \<^verbatim>\<open>DEFAULT_CONFIG_SCHEMA[k]\<close> and going on with the value.\<close>

definition config_get :: "string \<Rightarrow> state \<Rightarrow> (json \<Rightarrow> outcome) \<Rightarrow> outcome" where
  "config_get k s f = (case subscript (schema s) k of Inl e \<Rightarrow> Raised e s | Inr v \<Rightarrow> f v)"

text \<open>Executing \<^verbatim>\<open>DEFAULT_CONFIG_SCHEMA[k] = v\<close>.\<close>

definition config_set :: "string \<Rightarrow> json \<Rightarrow> state \<Rightarrow> outcome" where
  "config_set k v s =
     (case store_subscript (schema s) k v of
        Inl e \<Rightarrow> Raised e s
      | Inr d \<Rightarrow> Done (s\<lparr>schema := d\<rparr>))"

definition pr_inf :: "frag list \<Rightarrow> state \<Rightarrow> state" where
  "pr_inf msg s = s\<lparr>console := console s @ [(Tag_INF, msg)]\<rparr>"

definition pr_err :: "frag list \<Rightarrow> state \<Rightarrow> state" where
  "pr_err msg s = s\<lparr>console := console s @ [(Tag_ERR, msg)]\<rparr>"

definition pr_war :: "frag list \<Rightarrow> state \<Rightarrow> state" where
  "pr_war msg s = s\<lparr>console := console s @ [(Tag_WAR, msg)]\<rparr>"

text \<open>
  The client library is outside the program: \<open>lib c\<close> says whether the call \<open>c\<close> raises, and
  what. A call is recorded whether or not it raises.
\<close>

type_synonym paho = "call \<Rightarrow> py_error option"

definition client_do :: "paho \<Rightarrow> call \<Rightarrow> state \<Rightarrow> outcome" where
  "client_do lib c s =
     (let s' = s\<lparr>client_calls := client_calls s @ [c]\<rparr>
      in case lib c of None \<Rightarrow> Done s' | Some e \<Rightarrow> Raised e s')"

definition client_assign :: "call \<Rightarrow> state \<Rightarrow> state" where
  "client_assign c s = s\<lparr>client_calls := client_calls s @ [c]\<rparr>"

section \<open>The module level: constants and the load of the configuration\<close>

definition CONFIG_FILE :: string where
  "CONFIG_FILE = ''.mqtt-cli-config.json''"

text \<open>
  \<^verbatim>\<open>mqtt.MQTTv311\<close> is a constant of the paho client library, which is not part of the
  program: the integer 4, the protocol level of MQTT 3.1.1.
\<close>

definition MQTTv311 :: int where
  "MQTTv311 = 4"

definition DEFAULT_CONFIG_SCHEMA :: json where
  "DEFAULT_CONFIG_SCHEMA = JObj
     [(''server'', JStr ''localhost''),
      (''port'', JInt 1883),
      (''client_id'', JStr ''mqtt-cli''),
      (''clean_session'', JBool True),
      (''userdata'', JNull),
      (''username'', JNull),
      (''password'', JNull),
      (''protocol'', JInt MQTTv311),
      (''transport'', JStr ''tcp'')]"

text \<open>The state in which a run starts, given what is on disk.\<close>

definition process_start :: "file_text option \<Rightarrow> state" where
  "process_start fs =
     \<lparr>config_file = fs, schema = DEFAULT_CONFIG_SCHEMA, console = [], client_calls = []\<rparr>"

text \<open>
  Saving the configuration. The program has no function for it: the same two lines,
  \<^verbatim>\<open>with open(CONFIG_FILE, 'w') as f: json.dump(DEFAULT_CONFIG_SCHEMA, f)\<close>, stand at the end
  of the creation branch and of both setters. They overwrite the file with the document of
  the whole current global.
\<close>

definition save :: "state \<Rightarrow> state" where
  "save s = s\<lparr>config_file := Some (json_dump (schema s))\<rparr>"

text \<open>
  Lines 40 to 47, which the specification calls \<open>load_or_init\<close>: without a file, write the
  current global to a new one; with a file, replace the global by what \<^verbatim>\<open>json.load\<close>
  returns.
\<close>

definition load_or_init :: "state \<Rightarrow> outcome" where
  "load_or_init s =
     (case config_file s of
        None \<Rightarrow>
          Done (save (pr_err [Lit ''Couldn't find config file, creating config file '',
                              Lit CONFIG_FILE] s))
      | Some text \<Rightarrow>
          (let s1 = pr_inf [Lit ''Config file '', Lit CONFIG_FILE,
                            Lit '' found, loading config''] s
           in case json_load text of
                Inl e \<Rightarrow> Raised e s1
              | Inr v \<Rightarrow> Done (s1\<lparr>schema := v\<rparr>)))"

section \<open>The class MqttClient\<close>

text \<open>
  \<^verbatim>\<open>__init__\<close>: the five arguments of \<^verbatim>\<open>mqtt.Client\<close> are read from the configuration in
  the order Python evaluates them, the handle is built, the four callbacks are assigned,
  and \<^verbatim>\<open>username_pw_set\<close> is called under \<^verbatim>\<open>if username and password\<close>. The \<^verbatim>\<open>and\<close> does
  not read the password when the user name is false.
\<close>

definition MqttClient_init :: "paho \<Rightarrow> state \<Rightarrow> outcome" where
  "MqttClient_init lib s =
     config_get ''client_id'' s (\<lambda>cid.
     config_get ''protocol'' s (\<lambda>proto.
     config_get ''transport'' s (\<lambda>tport.
     config_get ''userdata'' s (\<lambda>udata.
     config_get ''clean_session'' s (\<lambda>clean.
       andthen (client_do lib (Client cid proto tport udata clean) s) (\<lambda>s1.
         let s2 = client_assign Set_on_connect s1;
             s3 = client_assign Set_on_message s2;
             s4 = client_assign Set_on_subscribe s3;
             s5 = client_assign Set_on_log s4
         in config_get ''username'' s5 (\<lambda>u.
              if \<not> truthy u then Done s5
              else config_get ''password'' s5 (\<lambda>p.
                if \<not> truthy p then Done s5
                else config_get ''username'' s5 (\<lambda>username.
                     config_get ''password'' s5 (\<lambda>password.
                       client_do lib (Username_pw_set username password) s5))))))))))"

definition set_mqtt_server :: "string \<Rightarrow> int \<Rightarrow> state \<Rightarrow> outcome" where
  "set_mqtt_server server port s =
     (let s1 = pr_inf [Lit ''Setting MQTT server to '', Lit server, Lit '':'',
                       Val (JInt port)] s
      in andthen (config_set ''server'' (JStr server) s1) (\<lambda>s2.
         andthen (config_set ''port'' (JInt port) s2) (\<lambda>s3. Done (save s3))))"

definition set_credentials :: "string \<Rightarrow> string \<Rightarrow> state \<Rightarrow> outcome" where
  "set_credentials username password s =
     (let s1 = pr_inf [Lit ''Setting credentials to '', Lit username, Lit '':'',
                       Lit password] s
      in andthen (config_set ''username'' (JStr username) s1) (\<lambda>s2.
         andthen (config_set ''password'' (JStr password) s2) (\<lambda>s3. Done (save s3))))"

text \<open>
  The two lines with which \<^verbatim>\<open>publish\<close>, \<^verbatim>\<open>subscribe\<close> and \<^verbatim>\<open>view_messages\<close> each begin:
  the f-string reads server and port, the line is printed, and \<^verbatim>\<open>connect\<close> is called with
  server and port read again.
\<close>

definition connect_lines :: "paho \<Rightarrow> state \<Rightarrow> outcome" where
  "connect_lines lib s =
     config_get ''server'' s (\<lambda>srv.
     config_get ''port'' s (\<lambda>prt.
       let s1 = pr_inf [Lit ''Connecting to MQTT server '', Val srv, Lit '':'', Val prt] s
       in config_get ''server'' s1 (\<lambda>server.
          config_get ''port'' s1 (\<lambda>port.
            client_do lib (Connect server port) s1))))"

definition publish :: "paho \<Rightarrow> string \<Rightarrow> string \<Rightarrow> int \<Rightarrow> bool \<Rightarrow> state \<Rightarrow> outcome" where
  "publish lib topic message qos retain s =
     andthen (connect_lines lib s) (\<lambda>s1.
       client_do lib (Publish topic message qos retain)
         (pr_inf [Lit ''Publishing message '', Lit message, Lit '' to topic '', Lit topic] s1))"

definition subscribe :: "paho \<Rightarrow> string \<Rightarrow> state \<Rightarrow> outcome" where
  "subscribe lib topic s =
     andthen (connect_lines lib s) (\<lambda>s1.
       client_do lib (Subscribe topic) (pr_inf [Lit ''Subscribing to topic '', Lit topic] s1))"

text \<open>
  \<^verbatim>\<open>while True: time.sleep(1)\<close>. Nothing in the loop leaves it, so only an exception does,
  and \<^verbatim>\<open>time.sleep\<close> raises only when the interrupt signal arrives: \<open>interrupt n\<close> says that
  it arrives during the sleep of round \<open>n\<close>. The loop gives the round in which it was
  interrupted, and \<open>None\<close> when it runs forever.
\<close>

partial_function (option) wait_loop :: "(nat \<Rightarrow> bool) \<Rightarrow> nat \<Rightarrow> nat option" where
  "wait_loop interrupt n = (if interrupt n then Some n else wait_loop interrupt (Suc n))"

text \<open>The statements of the \<^verbatim>\<open>try\<close> block of \<^verbatim>\<open>view_messages\<close> before the loop.\<close>

definition view_messages_try :: "paho \<Rightarrow> string \<Rightarrow> state \<Rightarrow> outcome" where
  "view_messages_try lib topic s =
     (let s1 = pr_inf [Lit ''Viewing messages from topic '', Lit topic] s;
          s2 = pr_inf [Lit ''Press Ctrl+C to exit''] s1
      in andthen (client_do lib (Subscribe topic) s2) (client_do lib Loop_start))"

text \<open>The handler \<^verbatim>\<open>except KeyboardInterrupt\<close>.\<close>

definition view_messages_except :: "paho \<Rightarrow> state \<Rightarrow> outcome" where
  "view_messages_except lib s =
     andthen (client_do lib Loop_stop s) (\<lambda>s1. Done (pr_inf [Lit ''Exiting view messages''] s1))"

text \<open>
  A run of a method that may wait forever: it returns with an outcome, or it never returns,
  and then the state is the one in which it waits. What it has done before is done in both
  cases.
\<close>

datatype run = Returns outcome | Never_returns state

fun run_state :: "run \<Rightarrow> state" where
  "run_state (Returns r) = state_of r"
| "run_state (Never_returns s) = s"

text \<open>
  \<^verbatim>\<open>view_messages\<close>: the connect lines are outside the \<^verbatim>\<open>try\<close>; inside it, a
  \<^verbatim>\<open>KeyboardInterrupt\<close> goes to the handler and every other exception leaves the method.
  When the wait loop runs forever the method never returns.
\<close>

definition view_messages :: "paho \<Rightarrow> (nat \<Rightarrow> bool) \<Rightarrow> string \<Rightarrow> state \<Rightarrow> run" where
  "view_messages lib interrupt topic s =
     (case connect_lines lib s of
        Raised e s1 \<Rightarrow> Returns (Raised e s1)
      | Done s1 \<Rightarrow>
          (case view_messages_try lib topic s1 of
             Raised e s2 \<Rightarrow>
               Returns (if e = KeyboardInterrupt then view_messages_except lib s2
                        else Raised e s2)
           | Done s2 \<Rightarrow>
               (case wait_loop interrupt 0 of
                  None \<Rightarrow> Never_returns s2
                | Some n \<Rightarrow> Returns (view_messages_except lib s2))))"

section \<open>The specification's connection establishment, and sample environments\<close>

text \<open>
  The calls of the connection-establishment algorithm in the specification's words
  (section 4.2), to be compared with the calls the code makes: build the handle from client
  id, protocol, transport, user data and clean-session flag; attach user name and password
  when both are set; connect to server and port. The four callback assignments of the
  constructor stand between the first two steps.
\<close>

definition establish_calls ::
  "json \<Rightarrow> json \<Rightarrow> json \<Rightarrow> json \<Rightarrow> json \<Rightarrow> json \<Rightarrow> json \<Rightarrow> json \<Rightarrow> json \<Rightarrow> call list" where
  "establish_calls cid proto tport udata clean u p srv prt =
     [Client cid proto tport udata clean,
      Set_on_connect, Set_on_message, Set_on_subscribe, Set_on_log]
     @ (if truthy u \<and> truthy p then [Username_pw_set u p] else [])
     @ [Connect srv prt]"

text \<open>
  Environments for concrete runs: a client library in which no call raises, an interrupt
  signal that arrives in round \<open>k\<close> of the wait loop, and one that never arrives.
\<close>

definition never_raises :: paho where
  "never_raises c = None"

definition interrupt_in_round :: "nat \<Rightarrow> nat \<Rightarrow> bool" where
  "interrupt_in_round k n = (n = k)"

definition never_interrupted :: "nat \<Rightarrow> bool" where
  "never_interrupted n = False"

text \<open>
  The broker, as the client library lets the program see it. \<^verbatim>\<open>connect\<close> opens the
  transport connection and sends the CONNECT packet: it raises when the broker cannot be
  reached. A broker that is reached and rejects the client says so in its CONNACK reply;
  the library reads that reply in its network loop and hands the result code to the
  \<^verbatim>\<open>on_connect\<close> callback (lines 99 and 100, which print it), so \<^verbatim>\<open>connect\<close> has returned
  by then and raises nothing. No other call raises.
\<close>

datatype broker = Unreachable | Rejects_in_CONNACK int | Accepts

definition paho_against :: "broker \<Rightarrow> paho" where
  "paho_against b c =
     (case c of
        Connect h p \<Rightarrow> (case b of Unreachable \<Rightarrow> Some ConnectionRefusedError | _ \<Rightarrow> None)
      | _ \<Rightarrow> None)"

section \<open>Basic facts\<close>

lemma config_get_Inr: "subscript (schema s) k = Inr v \<Longrightarrow> config_get k s f = f v"
  by (simp add: config_get_def)

lemma schema_pr_inf: "schema (pr_inf msg s) = schema s"
  by (simp add: pr_inf_def)

lemma connect_lines_eq:
  "subscript (schema s) ''server'' = Inr srv \<Longrightarrow> subscript (schema s) ''port'' = Inr prt \<Longrightarrow>
   connect_lines lib s =
     client_do lib (Connect srv prt)
       (pr_inf [Lit ''Connecting to MQTT server '', Val srv, Lit '':'', Val prt] s)"
  by (simp add: connect_lines_def config_get_Inr schema_pr_inf)

lemma schema_client_assign [simp]: "schema (client_assign c s) = schema s"
  by (simp add: client_assign_def)

lemma client_calls_client_assign [simp]:
  "client_calls (client_assign c s) = client_calls s @ [c]"
  by (simp add: client_assign_def)

lemma client_do_None:
  "lib c = None \<Longrightarrow> client_do lib c s = Done (s\<lparr>client_calls := client_calls s @ [c]\<rparr>)"
  by (simp add: client_do_def)

lemma client_do_Some:
  "lib c = Some e \<Longrightarrow> client_do lib c s = Raised e (s\<lparr>client_calls := client_calls s @ [c]\<rparr>)"
  by (simp add: client_do_def)

lemma update_twice_two_keys:
  assumes "k \<noteq> k'"
  shows "AList.update k' v' (AList.update k v (AList.update k' v' (AList.update k v al))) =
         AList.update k' v' (AList.update k v al)"
proof -
  let ?al = "AList.update k' v' (AList.update k v al)"
  from assms have "map_of ?al k = Some v" by (simp add: update_conv')
  then have "AList.update k v ?al = ?al" by (rule update_triv)
  then show ?thesis by simp
qed

lemma set_mqtt_server_dict:
  "schema s = JObj d \<Longrightarrow>
   set_mqtt_server server port s =
     Done (save (pr_inf [Lit ''Setting MQTT server to '', Lit server, Lit '':'', Val (JInt port)] s
       \<lparr>schema := JObj (AList.update ''port'' (JInt port)
                          (AList.update ''server'' (JStr server) d))\<rparr>))"
  by (simp add: set_mqtt_server_def config_set_def pr_inf_def)

lemma set_credentials_dict:
  "schema s = JObj d \<Longrightarrow>
   set_credentials username password s =
     Done (save (pr_inf [Lit ''Setting credentials to '', Lit username, Lit '':'', Lit password] s
       \<lparr>schema := JObj (AList.update ''password'' (JStr password)
                          (AList.update ''username'' (JStr username) d))\<rparr>))"
  by (simp add: set_credentials_def config_set_def pr_inf_def)

lemma MqttClient_init_eq:
  assumes "subscript (schema s) ''client_id'' = Inr cid"
    and "subscript (schema s) ''protocol'' = Inr proto"
    and "subscript (schema s) ''transport'' = Inr tport"
    and "subscript (schema s) ''userdata'' = Inr udata"
    and "subscript (schema s) ''clean_session'' = Inr clean"
    and "subscript (schema s) ''username'' = Inr u"
    and "subscript (schema s) ''password'' = Inr p"
  shows "MqttClient_init lib s =
     andthen (client_do lib (Client cid proto tport udata clean) s) (\<lambda>s1.
       let s5 = client_assign Set_on_log (client_assign Set_on_subscribe
                  (client_assign Set_on_message (client_assign Set_on_connect s1)))
       in if truthy u \<and> truthy p then client_do lib (Username_pw_set u p) s5 else Done s5)"
  using assms
  by (simp add: MqttClient_init_def config_get_def client_do_def Let_def split: option.splits)

lemma try_extends:
  "\<exists>rest. client_calls (state_of (view_messages_try lib topic s)) =
            client_calls s @ Subscribe topic # rest"
  by (simp add: view_messages_try_def client_do_def pr_inf_def Let_def split: option.splits)

lemma except_extends:
  "\<exists>rest. client_calls (state_of (view_messages_except lib s)) = client_calls s @ rest"
  by (simp add: view_messages_except_def client_do_def pr_inf_def Let_def split: option.splits)

lemma view_messages_calls:
  assumes cl: "connect_lines lib s = client_do lib (Connect srv prt) s0"
    and s0: "client_calls s0 = client_calls s"
  shows "\<exists>rest. client_calls (run_state (view_messages lib interrupt topic s)) =
           (client_calls s @ [Connect srv prt])
             @ (case lib (Connect srv prt) of None \<Rightarrow> Subscribe topic # rest | Some e \<Rightarrow> [])"
proof (cases "lib (Connect srv prt)")
  case (Some e)
  with cl have "connect_lines lib s =
      Raised e (s0\<lparr>client_calls := client_calls s0 @ [Connect srv prt]\<rparr>)"
    by (simp add: client_do_def Let_def)
  then have "view_messages lib interrupt topic s =
      Returns (Raised e (s0\<lparr>client_calls := client_calls s0 @ [Connect srv prt]\<rparr>))"
    by (simp add: view_messages_def)
  with s0 Some show ?thesis by simp
next
  case None
  let ?s1 = "s0\<lparr>client_calls := client_calls s0 @ [Connect srv prt]\<rparr>"
  from None cl have c: "connect_lines lib s = Done ?s1"
    by (simp add: client_do_def Let_def)
  obtain t1 where t1: "client_calls (state_of (view_messages_try lib topic ?s1)) =
      client_calls ?s1 @ Subscribe topic # t1"
    using try_extends by blast
  have "\<exists>t. client_calls (run_state (view_messages lib interrupt topic s)) =
      client_calls ?s1 @ Subscribe topic # t"
  proof (cases "view_messages_try lib topic ?s1")
    case (Done s2)
    with t1 have s2: "client_calls s2 = client_calls ?s1 @ Subscribe topic # t1" by simp
    obtain t2 where t2: "client_calls (state_of (view_messages_except lib s2)) =
        client_calls s2 @ t2"
      using except_extends by blast
    show ?thesis
    proof (cases "wait_loop interrupt 0")
      case None
      with c Done have "view_messages lib interrupt topic s = Never_returns s2"
        by (simp add: view_messages_def)
      with s2 show ?thesis by simp
    next
      case (Some n)
      with c Done have "view_messages lib interrupt topic s =
          Returns (view_messages_except lib s2)"
        by (simp add: view_messages_def)
      with t2 s2 show ?thesis by simp
    qed
  next
    case (Raised e s2)
    with t1 have s2: "client_calls s2 = client_calls ?s1 @ Subscribe topic # t1" by simp
    obtain t2 where t2: "client_calls (state_of (view_messages_except lib s2)) =
        client_calls s2 @ t2"
      using except_extends by blast
    from c Raised have "view_messages lib interrupt topic s =
        Returns (if e = KeyboardInterrupt then view_messages_except lib s2 else Raised e s2)"
      by (simp add: view_messages_def)
    with t2 s2 show ?thesis by (cases "e = KeyboardInterrupt") simp_all
  qed
  with s0 None show ?thesis by simp
qed

text \<open>
  The wait loop: it ends exactly when the signal arrives at some time, and then in a round
  in which it arrives.
\<close>

lemma wait_loop_from:
  "interrupt (n + k) \<Longrightarrow> \<exists>j. wait_loop interrupt n = Some j \<and> interrupt j"
proof (induction k arbitrary: n)
  case 0
  then show ?case by (subst wait_loop.simps) simp
next
  case (Suc k)
  show ?case
  proof (cases "interrupt n")
    case True
    then show ?thesis by (subst wait_loop.simps) simp
  next
    case False
    from Suc.prems have "interrupt (Suc n + k)" by simp
    from Suc.IH [OF this] obtain j where "wait_loop interrupt (Suc n) = Some j" "interrupt j"
      by blast
    with False show ?thesis by (subst wait_loop.simps) simp
  qed
qed

lemma wait_loop_Some: "wait_loop interrupt n = Some j \<Longrightarrow> interrupt j \<and> n \<le> j"
proof (induction rule: wait_loop.raw_induct [rotated 1, consumes 1])
  case (1 wl interrupt n j)
  then show ?case by (auto split: if_splits dest: Suc_leD)
qed

lemma wait_loop_None_iff: "(wait_loop interrupt 0 = None) = (\<forall>n. \<not> interrupt n)"
proof
  assume none: "wait_loop interrupt 0 = None"
  show "\<forall>n. \<not> interrupt n"
  proof (intro allI notI)
    fix n assume "interrupt n"
    then have "interrupt (0 + n)" by simp
    from wait_loop_from [of interrupt 0 n, OF this] none show False by simp
  qed
next
  assume never: "\<forall>n. \<not> interrupt n"
  show "wait_loop interrupt 0 = None"
  proof (cases "wait_loop interrupt 0")
    case None
    then show ?thesis .
  next
    case (Some j)
    from wait_loop_Some [OF this] never show ?thesis by blast
  qed
qed

lemma wait_loop_in_round_2: "wait_loop (interrupt_in_round 2) 0 = Some 2"
  by (simp add: wait_loop.simps interrupt_in_round_def)

lemma wait_loop_never_interrupted: "wait_loop never_interrupted 0 = None"
  by (simp add: wait_loop_None_iff never_interrupted_def)

text \<open>The constructor on the built-in defaults, with a library in which nothing raises.\<close>

lemma MqttClient_init_defaults:
  "MqttClient_init never_raises (process_start None) =
     Done (process_start None\<lparr>client_calls :=
       [Client (JStr ''mqtt-cli'') (JInt 4) (JStr ''tcp'') JNull (JBool True),
        Set_on_connect, Set_on_message, Set_on_subscribe, Set_on_log]\<rparr>)"
  by (simp add: MqttClient_init_def config_get_def client_do_def client_assign_def
      never_raises_def process_start_def DEFAULT_CONFIG_SCHEMA_def MQTTv311_def Let_def)

section \<open>Default creation\<close>

text \<open>
  C1. A run that finds no configuration file creates it holding exactly the defaults
  (server \<open>localhost\<close>, port 1883, client id \<open>mqtt-cli\<close>, clean session true, user name and
  password \<^verbatim>\<open>None\<close>, protocol MQTT 3.1.1, transport \<open>tcp\<close>), reports on the console that it
  created the file, and goes on with that same record as its configuration.
\<close>

theorem load_or_init_creates_defaults:
  "\<exists>s. load_or_init (process_start None) = Done s
       \<and> config_file s = Some (json_dump DEFAULT_CONFIG_SCHEMA)
       \<and> json_load (json_dump DEFAULT_CONFIG_SCHEMA) = Inr (schema s)
       \<and> schema s = DEFAULT_CONFIG_SCHEMA
       \<and> subscript (schema s) ''server'' = Inr (JStr ''localhost'')
       \<and> subscript (schema s) ''port'' = Inr (JInt 1883)
       \<and> subscript (schema s) ''client_id'' = Inr (JStr ''mqtt-cli'')
       \<and> subscript (schema s) ''clean_session'' = Inr (JBool True)
       \<and> subscript (schema s) ''username'' = Inr JNull
       \<and> subscript (schema s) ''password'' = Inr JNull
       \<and> subscript (schema s) ''protocol'' = Inr (JInt MQTTv311)
       \<and> subscript (schema s) ''transport'' = Inr (JStr ''tcp'')
       \<and> console s = [(Tag_ERR, [Lit ''Couldn't find config file, creating config file '',
                              Lit CONFIG_FILE])]
       \<and> client_calls s = []"
  by (simp add: load_or_init_def process_start_def pr_err_def save_def json_dump_def
      DEFAULT_CONFIG_SCHEMA_def)

section \<open>Round trip\<close>

text \<open>
  C2. Saving any configuration and then starting a new run, whose load finds the file,
  gives a configuration identical to the one saved: the new run completes its load, its
  global is the saved value, and the file is left as it was written.
\<close>

theorem save_then_load_round_trip:
  "\<exists>s'. load_or_init (process_start (config_file (save s))) = Done s'
        \<and> schema s' = schema s
        \<and> config_file s' = config_file (save s)"
  by (simp add: load_or_init_def process_start_def save_def json_dump_def pr_inf_def)

section \<open>Loading replaces the defaults\<close>

text \<open>
  C3. When the file exists and holds a JSON document, the loaded value replaces the
  built-in defaults entirely: the configuration is the value of the document and nothing
  else, so for a dict a key of the defaults that the file does not have is missing
  afterwards (reading it raises \<^verbatim>\<open>KeyError\<close>). When the file exists and holds any other text,
  the load raises \<^verbatim>\<open>JSONDecodeError\<close>, the error the specification names
  \<open>ConfigCorruptError\<close>, and the defaults are still in place.
\<close>

theorem load_or_init_replaces_or_fails:
  "load_or_init (process_start (Some (Json_document v))) =
     Done \<lparr>config_file = Some (Json_document v), schema = v,
           console = [(Tag_INF, [Lit ''Config file '', Lit CONFIG_FILE,
                                 Lit '' found, loading config''])],
           client_calls = []\<rparr>
   \<and> subscript (schema (state_of (load_or_init (process_start (Some (Json_document (JObj d))))))) k
       = (case map_of d k of None \<Rightarrow> Inl (KeyError k) | Some x \<Rightarrow> Inr x)
   \<and> load_or_init (process_start (Some (Not_json t))) =
     Raised JSONDecodeError
       \<lparr>config_file = Some (Not_json t), schema = DEFAULT_CONFIG_SCHEMA,
        console = [(Tag_INF, [Lit ''Config file '', Lit CONFIG_FILE,
                              Lit '' found, loading config''])],
        client_calls = []\<rparr>"
  by (simp add: load_or_init_def process_start_def pr_inf_def)

text \<open>
  A file with only the server: the port of the defaults is not merged in, and the
  constructor of the client, which reads \<^verbatim>\<open>client_id\<close> first, raises \<^verbatim>\<open>KeyError\<close>.
\<close>

lemma partial_file_is_not_merged:
  "subscript (schema (state_of (load_or_init (process_start (Some (Json_document
      (JObj [(''server'', JStr ''broker.example.com'')]))))))) ''port'' = Inl (KeyError ''port'')
   \<and> andthen (load_or_init (process_start (Some (Json_document
      (JObj [(''server'', JStr ''broker.example.com'')]))))) (MqttClient_init never_raises)
     = Raised (KeyError ''client_id'')
        \<lparr>config_file = Some (Json_document (JObj [(''server'', JStr ''broker.example.com'')])),
         schema = JObj [(''server'', JStr ''broker.example.com'')],
         console = [(Tag_INF, [Lit ''Config file '', Lit CONFIG_FILE,
                               Lit '' found, loading config''])],
         client_calls = []\<rparr>"
  by (simp add: load_or_init_def process_start_def pr_inf_def MqttClient_init_def
      config_get_def)

section \<open>Connection establishment\<close>

text \<open>
  C4, with the user data read from the configuration. For \<^verbatim>\<open>publish\<close>, \<^verbatim>\<open>subscribe\<close> and
  \<^verbatim>\<open>view_messages\<close>, run after the constructor as the command line does, the calls on the
  client begin with those of the specification's algorithm: the handle built from the
  current configuration's client id, protocol, transport, clean-session flag and user data
  (the user data of the configuration, which is \<^verbatim>\<open>None\<close> in the defaults); user name and
  password attached before the connect when both are set; then the connect to the current
  server and port. The operation's own request follows only when the connect did not
  raise. For \<^verbatim>\<open>view_messages\<close> this holds of every run, whether it returns or waits forever.
\<close>

theorem connection_establishment:
  assumes "subscript (schema s) ''client_id'' = Inr cid"
    and "subscript (schema s) ''protocol'' = Inr proto"
    and "subscript (schema s) ''transport'' = Inr tport"
    and "subscript (schema s) ''userdata'' = Inr udata"
    and "subscript (schema s) ''clean_session'' = Inr clean"
    and "subscript (schema s) ''username'' = Inr u"
    and "subscript (schema s) ''password'' = Inr p"
    and "subscript (schema s) ''server'' = Inr srv"
    and "subscript (schema s) ''port'' = Inr prt"
    and "lib (Client cid proto tport udata clean) = None"
    and "lib (Username_pw_set u p) = None"
  shows "\<exists>s1. MqttClient_init lib s = Done s1
    \<and> client_calls (state_of (publish lib topic message qos retain s1)) =
        client_calls s @ establish_calls cid proto tport udata clean u p srv prt
          @ (case lib (Connect srv prt) of None \<Rightarrow> [Publish topic message qos retain] | Some e \<Rightarrow> [])
    \<and> client_calls (state_of (subscribe lib topic s1)) =
        client_calls s @ establish_calls cid proto tport udata clean u p srv prt
          @ (case lib (Connect srv prt) of None \<Rightarrow> [Subscribe topic] | Some e \<Rightarrow> [])
    \<and> (\<exists>rest. client_calls (run_state (view_messages lib interrupt topic s1)) =
        client_calls s @ establish_calls cid proto tport udata clean u p srv prt
          @ (case lib (Connect srv prt) of None \<Rightarrow> Subscribe topic # rest | Some e \<Rightarrow> []))"
proof -
  let ?build = "[Client cid proto tport udata clean,
                 Set_on_connect, Set_on_message, Set_on_subscribe, Set_on_log]
                @ (if truthy u \<and> truthy p then [Username_pw_set u p] else [])"
  let ?line = "pr_inf [Lit ''Connecting to MQTT server '', Val srv, Lit '':'', Val prt]"
  have "\<exists>s1. MqttClient_init lib s = Done s1 \<and> schema s1 = schema s
           \<and> client_calls s1 = client_calls s @ ?build"
    using assms by (simp add: MqttClient_init_eq client_do_None Let_def)
  then obtain s1 where init: "MqttClient_init lib s = Done s1"
    and sch: "schema s1 = schema s"
    and calls: "client_calls s1 = client_calls s @ ?build"
    by blast
  have cl: "connect_lines lib s1 = client_do lib (Connect srv prt) (?line s1)"
    by (rule connect_lines_eq) (simp_all add: sch assms)
  have pub: "client_calls (state_of (publish lib topic message qos retain s1)) =
        client_calls s @ (?build @ [Connect srv prt])
          @ (case lib (Connect srv prt) of None \<Rightarrow> [Publish topic message qos retain] | Some e \<Rightarrow> [])"
    by (simp add: publish_def cl client_do_def Let_def pr_inf_def calls split: option.splits)
  have sub: "client_calls (state_of (subscribe lib topic s1)) =
        client_calls s @ (?build @ [Connect srv prt])
          @ (case lib (Connect srv prt) of None \<Rightarrow> [Subscribe topic] | Some e \<Rightarrow> [])"
    by (simp add: subscribe_def cl client_do_def Let_def pr_inf_def calls split: option.splits)
  have "\<exists>rest. client_calls (run_state (view_messages lib interrupt topic s1)) =
          (client_calls s1 @ [Connect srv prt])
            @ (case lib (Connect srv prt) of None \<Rightarrow> Subscribe topic # rest | Some e \<Rightarrow> [])"
    by (rule view_messages_calls [OF cl]) (simp add: pr_inf_def)
  then have vm: "\<exists>rest. client_calls (run_state (view_messages lib interrupt topic s1)) =
          client_calls s @ (?build @ [Connect srv prt])
            @ (case lib (Connect srv prt) of None \<Rightarrow> Subscribe topic # rest | Some e \<Rightarrow> [])"
    by (simp add: calls)
  have eq: "establish_calls cid proto tport udata clean u p srv prt = ?build @ [Connect srv prt]"
    by (simp add: establish_calls_def)
  show ?thesis
    unfolding eq
    by (rule exI [of _ s1]) (intro conjI init pub sub vm)
qed

text \<open>
  A run from the built-in defaults with a library in which nothing raises: the three
  operations, \<^verbatim>\<open>view_messages\<close> once interrupted in round 2 and once never interrupted.
\<close>

theorem connection_establishment_witness:
  "\<exists>s1. MqttClient_init never_raises (process_start None) = Done s1
     \<and> client_calls (state_of (publish never_raises ''sensors/temp'' ''21.5'' 0 False s1)) =
         [Client (JStr ''mqtt-cli'') (JInt 4) (JStr ''tcp'') JNull (JBool True),
          Set_on_connect, Set_on_message, Set_on_subscribe, Set_on_log,
          Connect (JStr ''localhost'') (JInt 1883),
          Publish ''sensors/temp'' ''21.5'' 0 False]
     \<and> client_calls (state_of (subscribe never_raises ''sensors/temp'' s1)) =
         [Client (JStr ''mqtt-cli'') (JInt 4) (JStr ''tcp'') JNull (JBool True),
          Set_on_connect, Set_on_message, Set_on_subscribe, Set_on_log,
          Connect (JStr ''localhost'') (JInt 1883),
          Subscribe ''sensors/temp'']
     \<and> client_calls (run_state
            (view_messages never_raises (interrupt_in_round 2) ''sensors/temp'' s1)) =
         [Client (JStr ''mqtt-cli'') (JInt 4) (JStr ''tcp'') JNull (JBool True),
          Set_on_connect, Set_on_message, Set_on_subscribe, Set_on_log,
          Connect (JStr ''localhost'') (JInt 1883),
          Subscribe ''sensors/temp'', Loop_start, Loop_stop]
     \<and> view_messages never_raises never_interrupted ''sensors/temp'' s1 =
         Never_returns
           \<lparr>config_file = None, schema = DEFAULT_CONFIG_SCHEMA,
            console =
              [(Tag_INF, [Lit ''Connecting to MQTT server '', Val (JStr ''localhost''),
                          Lit '':'', Val (JInt 1883)]),
               (Tag_INF, [Lit ''Viewing messages from topic '', Lit ''sensors/temp'']),
               (Tag_INF, [Lit ''Press Ctrl+C to exit''])],
            client_calls =
              [Client (JStr ''mqtt-cli'') (JInt 4) (JStr ''tcp'') JNull (JBool True),
               Set_on_connect, Set_on_message, Set_on_subscribe, Set_on_log,
               Connect (JStr ''localhost'') (JInt 1883),
               Subscribe ''sensors/temp'', Loop_start]\<rparr>"
proof -
  have "\<exists>s1. MqttClient_init never_raises (process_start None) = Done s1
    \<and> client_calls (state_of (publish never_raises ''sensors/temp'' ''21.5'' 0 False s1)) =
        client_calls (process_start None)
          @ establish_calls (JStr ''mqtt-cli'') (JInt 4) (JStr ''tcp'') JNull (JBool True)
              JNull JNull (JStr ''localhost'') (JInt 1883)
          @ (case never_raises (Connect (JStr ''localhost'') (JInt 1883)) of
               None \<Rightarrow> [Publish ''sensors/temp'' ''21.5'' 0 False] | Some e \<Rightarrow> [])
    \<and> client_calls (state_of (subscribe never_raises ''sensors/temp'' s1)) =
        client_calls (process_start None)
          @ establish_calls (JStr ''mqtt-cli'') (JInt 4) (JStr ''tcp'') JNull (JBool True)
              JNull JNull (JStr ''localhost'') (JInt 1883)
          @ (case never_raises (Connect (JStr ''localhost'') (JInt 1883)) of
               None \<Rightarrow> [Subscribe ''sensors/temp''] | Some e \<Rightarrow> [])
    \<and> (\<exists>rest. client_calls (run_state
            (view_messages never_raises (interrupt_in_round 2) ''sensors/temp'' s1)) =
        client_calls (process_start None)
          @ establish_calls (JStr ''mqtt-cli'') (JInt 4) (JStr ''tcp'') JNull (JBool True)
              JNull JNull (JStr ''localhost'') (JInt 1883)
          @ (case never_raises (Connect (JStr ''localhost'') (JInt 1883)) of
               None \<Rightarrow> Subscribe ''sensors/temp'' # rest | Some e \<Rightarrow> []))"
    by (rule connection_establishment)
      (simp_all add: process_start_def DEFAULT_CONFIG_SCHEMA_def MQTTv311_def never_raises_def)
  then obtain s1 where 1: "MqttClient_init never_raises (process_start None) = Done s1"
    and "client_calls (state_of (publish never_raises ''sensors/temp'' ''21.5'' 0 False s1)) =
        client_calls (process_start None)
          @ establish_calls (JStr ''mqtt-cli'') (JInt 4) (JStr ''tcp'') JNull (JBool True)
              JNull JNull (JStr ''localhost'') (JInt 1883)
          @ (case never_raises (Connect (JStr ''localhost'') (JInt 1883)) of
               None \<Rightarrow> [Publish ''sensors/temp'' ''21.5'' 0 False] | Some e \<Rightarrow> [])"
    and "client_calls (state_of (subscribe never_raises ''sensors/temp'' s1)) =
        client_calls (process_start None)
          @ establish_calls (JStr ''mqtt-cli'') (JInt 4) (JStr ''tcp'') JNull (JBool True)
              JNull JNull (JStr ''localhost'') (JInt 1883)
          @ (case never_raises (Connect (JStr ''localhost'') (JInt 1883)) of
               None \<Rightarrow> [Subscribe ''sensors/temp''] | Some e \<Rightarrow> [])"
    by blast
  then have 2: "client_calls (state_of
        (publish never_raises ''sensors/temp'' ''21.5'' 0 False s1)) =
         [Client (JStr ''mqtt-cli'') (JInt 4) (JStr ''tcp'') JNull (JBool True),
          Set_on_connect, Set_on_message, Set_on_subscribe, Set_on_log,
          Connect (JStr ''localhost'') (JInt 1883),
          Publish ''sensors/temp'' ''21.5'' 0 False]"
    and 3: "client_calls (state_of (subscribe never_raises ''sensors/temp'' s1)) =
         [Client (JStr ''mqtt-cli'') (JInt 4) (JStr ''tcp'') JNull (JBool True),
          Set_on_connect, Set_on_message, Set_on_subscribe, Set_on_log,
          Connect (JStr ''localhost'') (JInt 1883),
          Subscribe ''sensors/temp'']"
    by (simp_all add: process_start_def establish_calls_def never_raises_def)
  from 1 have s1: "s1 = process_start None\<lparr>client_calls :=
         [Client (JStr ''mqtt-cli'') (JInt 4) (JStr ''tcp'') JNull (JBool True),
          Set_on_connect, Set_on_message, Set_on_subscribe, Set_on_log]\<rparr>"
    by (simp add: MqttClient_init_defaults)
  have 4: "client_calls (run_state
            (view_messages never_raises (interrupt_in_round 2) ''sensors/temp'' s1)) =
         [Client (JStr ''mqtt-cli'') (JInt 4) (JStr ''tcp'') JNull (JBool True),
          Set_on_connect, Set_on_message, Set_on_subscribe, Set_on_log,
          Connect (JStr ''localhost'') (JInt 1883),
          Subscribe ''sensors/temp'', Loop_start, Loop_stop]"
    unfolding s1
    by (simp add: view_messages_def connect_lines_def config_get_def client_do_def
        view_messages_try_def view_messages_except_def pr_inf_def wait_loop_in_round_2
        never_raises_def process_start_def DEFAULT_CONFIG_SCHEMA_def Let_def)
  have 5: "view_messages never_raises never_interrupted ''sensors/temp'' s1 =
         Never_returns
           \<lparr>config_file = None, schema = DEFAULT_CONFIG_SCHEMA,
            console =
              [(Tag_INF, [Lit ''Connecting to MQTT server '', Val (JStr ''localhost''),
                          Lit '':'', Val (JInt 1883)]),
               (Tag_INF, [Lit ''Viewing messages from topic '', Lit ''sensors/temp'']),
               (Tag_INF, [Lit ''Press Ctrl+C to exit''])],
            client_calls =
              [Client (JStr ''mqtt-cli'') (JInt 4) (JStr ''tcp'') JNull (JBool True),
               Set_on_connect, Set_on_message, Set_on_subscribe, Set_on_log,
               Connect (JStr ''localhost'') (JInt 1883),
               Subscribe ''sensors/temp'', Loop_start]\<rparr>"
    unfolding s1
    by (simp add: view_messages_def connect_lines_def config_get_def client_do_def
        view_messages_try_def view_messages_except_def pr_inf_def wait_loop_never_interrupted
        never_raises_def process_start_def DEFAULT_CONFIG_SCHEMA_def Let_def)
  show ?thesis
    by (rule exI [of _ s1]) (intro conjI 1 2 3 4 5)
qed

text \<open>
  The claim as the specification states it has the handle built with user data
  \<^verbatim>\<open>None\<close>. The constructor passes \<^verbatim>\<open>DEFAULT_CONFIG_SCHEMA['userdata']\<close>: with a
  configuration file whose \<^verbatim>\<open>userdata\<close> is the string \<open>tag\<close>, the handle of a \<^verbatim>\<open>publish\<close> run
  is built with that string.
\<close>

theorem userdata_from_config_counterexample:
  "hd (client_calls (state_of
      (andthen
        (andthen
          (load_or_init (process_start (Some (Json_document (JObj
             [(''server'', JStr ''localhost''),
              (''port'', JInt 1883),
              (''client_id'', JStr ''mqtt-cli''),
              (''clean_session'', JBool True),
              (''userdata'', JStr ''tag''),
              (''username'', JNull),
              (''password'', JNull),
              (''protocol'', JInt 4),
              (''transport'', JStr ''tcp'')])))))
          (MqttClient_init never_raises))
        (publish never_raises ''sensors/temp'' ''21.5'' 0 False))))
     = Client (JStr ''mqtt-cli'') (JInt 4) (JStr ''tcp'') (JStr ''tag'') (JBool True)
   \<and> Client (JStr ''mqtt-cli'') (JInt 4) (JStr ''tcp'') (JStr ''tag'') (JBool True)
     \<noteq> Client (JStr ''mqtt-cli'') (JInt 4) (JStr ''tcp'') JNull (JBool True)"
  by (simp add: load_or_init_def process_start_def pr_inf_def MqttClient_init_def
      config_get_def client_do_def client_assign_def never_raises_def publish_def
      connect_lines_def Let_def)

section \<open>Credential gating\<close>

text \<open>
  C5. Once the handle is built, \<^verbatim>\<open>username_pw_set\<close> is among the calls of the
  constructor if and only if the user name and the password of the configuration are both
  true in Python's sense, and then it carries exactly these two values. For the optional
  strings of the specification, true means a string that is not empty: \<^verbatim>\<open>None\<close> and the
  empty string are false. In particular a user name with no password attaches nothing.
\<close>

theorem credentials_only_when_both_set:
  assumes "subscript (schema s) ''client_id'' = Inr cid"
    and "subscript (schema s) ''protocol'' = Inr proto"
    and "subscript (schema s) ''transport'' = Inr tport"
    and "subscript (schema s) ''userdata'' = Inr udata"
    and "subscript (schema s) ''clean_session'' = Inr clean"
    and "lib (Client cid proto tport udata clean) = None"
    and "subscript (schema s) ''username'' = Inr u"
  shows "((Username_pw_set a b \<in> set (drop (length (client_calls s))
             (client_calls (state_of (MqttClient_init lib s)))))
          = (a = u \<and> truthy u \<and> subscript (schema s) ''password'' = Inr b \<and> truthy b))
         \<and> \<not> truthy JNull
         \<and> truthy (JStr x) = (x \<noteq> [])"
  using assms
  by (cases "subscript (schema s) ''password''")
    (auto simp: MqttClient_init_def config_get_def client_do_def Let_def split: option.splits)

theorem credentials_only_when_both_set_witness:
  "Username_pw_set (JStr ''alice'') JNull \<notin> set (drop (length (client_calls
       \<lparr>config_file = None,
        schema = JObj [(''client_id'', JStr ''mqtt-cli''), (''protocol'', JInt 4),
                       (''transport'', JStr ''tcp''), (''userdata'', JNull),
                       (''clean_session'', JBool True), (''username'', JStr ''alice''),
                       (''password'', JNull)],
        console = [], client_calls = []\<rparr>))
     (client_calls (state_of (MqttClient_init never_raises
       \<lparr>config_file = None,
        schema = JObj [(''client_id'', JStr ''mqtt-cli''), (''protocol'', JInt 4),
                       (''transport'', JStr ''tcp''), (''userdata'', JNull),
                       (''clean_session'', JBool True), (''username'', JStr ''alice''),
                       (''password'', JNull)],
        console = [], client_calls = []\<rparr>))))"
  using credentials_only_when_both_set
    [where s = "\<lparr>config_file = None,
        schema = JObj [(''client_id'', JStr ''mqtt-cli''), (''protocol'', JInt 4),
                       (''transport'', JStr ''tcp''), (''userdata'', JNull),
                       (''clean_session'', JBool True), (''username'', JStr ''alice''),
                       (''password'', JNull)],
        console = [], client_calls = []\<rparr>"
      and lib = never_raises and cid = "JStr ''mqtt-cli''" and proto = "JInt 4"
      and tport = "JStr ''tcp''" and udata = JNull and clean = "JBool True"
      and u = "JStr ''alice''" and a = "JStr ''alice''" and b = JNull]
  by (simp add: never_raises_def)

section \<open>Setting the server\<close>

text \<open>
  C6. From any persisted configuration record (a dict \<open>d\<close>, on disk and loaded),
  \<^verbatim>\<open>set_mqtt_server\<close> with any server and port completes, and a new run that loads the file
  finds exactly the new server and port, and under every other key what \<open>d\<close> had there. The
  method makes no call on the client, so no connection is attempted.
\<close>

theorem set_mqtt_server_then_reload:
  assumes "config_file s = Some (json_dump (JObj d))" and "schema s = JObj d"
  shows "\<exists>s1 s2. set_mqtt_server server port s = Done s1
            \<and> load_or_init (process_start (config_file s1)) = Done s2
            \<and> subscript (schema s2) ''server'' = Inr (JStr server)
            \<and> subscript (schema s2) ''port'' = Inr (JInt port)
            \<and> (\<forall>k. k \<noteq> ''server'' \<and> k \<noteq> ''port'' \<longrightarrow>
                   subscript (schema s2) k = subscript (JObj d) k)
            \<and> client_calls s1 = client_calls s"
  using assms
  by (simp add: set_mqtt_server_dict save_def json_dump_def load_or_init_def process_start_def
      pr_inf_def update_conv')

theorem set_mqtt_server_then_reload_witness:
  "\<exists>s1 s2. set_mqtt_server ''broker.example.com'' 8883
              (process_start (Some (json_dump DEFAULT_CONFIG_SCHEMA))) = Done s1
     \<and> load_or_init (process_start (config_file s1)) = Done s2
     \<and> subscript (schema s2) ''server'' = Inr (JStr ''broker.example.com'')
     \<and> subscript (schema s2) ''port'' = Inr (JInt 8883)
     \<and> subscript (schema s2) ''client_id'' = Inr (JStr ''mqtt-cli'')
     \<and> client_calls s1 = []"
proof -
  have "\<exists>s1 s2. set_mqtt_server ''broker.example.com'' 8883
              (process_start (Some (json_dump DEFAULT_CONFIG_SCHEMA))) = Done s1
            \<and> load_or_init (process_start (config_file s1)) = Done s2
            \<and> subscript (schema s2) ''server'' = Inr (JStr ''broker.example.com'')
            \<and> subscript (schema s2) ''port'' = Inr (JInt 8883)
            \<and> (\<forall>k. k \<noteq> ''server'' \<and> k \<noteq> ''port'' \<longrightarrow>
                   subscript (schema s2) k = subscript DEFAULT_CONFIG_SCHEMA k)
            \<and> client_calls s1 =
                client_calls (process_start (Some (json_dump DEFAULT_CONFIG_SCHEMA)))"
    unfolding DEFAULT_CONFIG_SCHEMA_def
    by (rule set_mqtt_server_then_reload) (simp_all add: process_start_def DEFAULT_CONFIG_SCHEMA_def)
  then obtain s1 s2 where "set_mqtt_server ''broker.example.com'' 8883
              (process_start (Some (json_dump DEFAULT_CONFIG_SCHEMA))) = Done s1"
    and "load_or_init (process_start (config_file s1)) = Done s2"
    and "subscript (schema s2) ''server'' = Inr (JStr ''broker.example.com'')"
    and "subscript (schema s2) ''port'' = Inr (JInt 8883)"
    and other: "\<forall>k. k \<noteq> ''server'' \<and> k \<noteq> ''port'' \<longrightarrow>
                   subscript (schema s2) k = subscript DEFAULT_CONFIG_SCHEMA k"
    and "client_calls s1 = client_calls (process_start (Some (json_dump DEFAULT_CONFIG_SCHEMA)))"
    by blast
  moreover from other have "subscript (schema s2) ''client_id'' = Inr (JStr ''mqtt-cli'')"
    by (simp add: DEFAULT_CONFIG_SCHEMA_def)
  ultimately show ?thesis by (simp add: process_start_def)
qed

text \<open>
  C9. Calling \<^verbatim>\<open>set_mqtt_server\<close> a second time with the same server and port, in the same
  run or in a new run that loaded the file the first call wrote, leaves the very file the
  first call wrote.
\<close>

theorem set_mqtt_server_idempotent:
  assumes "schema s = JObj d"
  shows "\<exists>s1 s2 s3. set_mqtt_server server port s = Done s1
            \<and> set_mqtt_server server port s1 = Done s2
            \<and> config_file s2 = config_file s1
            \<and> load_or_init (process_start (config_file s1)) = Done s3
            \<and> config_file (state_of (set_mqtt_server server port s3)) = config_file s1"
  using assms
  by (simp add: set_mqtt_server_dict save_def json_dump_def load_or_init_def process_start_def
      pr_inf_def update_twice_two_keys)

theorem set_mqtt_server_idempotent_witness:
  "\<exists>s1 s2. set_mqtt_server ''test.broker.io'' 1883 (process_start None) = Done s1
     \<and> set_mqtt_server ''test.broker.io'' 1883 s1 = Done s2
     \<and> config_file s2 = config_file s1"
proof -
  have "\<exists>s1 s2 s3. set_mqtt_server ''test.broker.io'' 1883 (process_start None) = Done s1
            \<and> set_mqtt_server ''test.broker.io'' 1883 s1 = Done s2
            \<and> config_file s2 = config_file s1
            \<and> load_or_init (process_start (config_file s1)) = Done s3
            \<and> config_file (state_of (set_mqtt_server ''test.broker.io'' 1883 s3)) =
                config_file s1"
    by (rule set_mqtt_server_idempotent) (simp add: process_start_def DEFAULT_CONFIG_SCHEMA_def)
  then show ?thesis by blast
qed

section \<open>The file after a setter\<close>

text \<open>
  C10. When \<^verbatim>\<open>set_mqtt_server\<close> or \<^verbatim>\<open>set_credentials\<close> completes, the file holds the dump of
  the whole configuration as it is in memory at that moment, so loading it gives that
  configuration back; and on a configuration that is a dict both complete, with the two
  keys of the call set.
\<close>

theorem setters_rewrite_whole_record:
  "(set_mqtt_server server port s = Done s' \<longrightarrow>
      config_file s' = Some (json_dump (schema s')) \<and> json_load (json_dump (schema s')) = Inr (schema s'))
   \<and> (set_credentials username password s = Done s'' \<longrightarrow>
      config_file s'' = Some (json_dump (schema s'')) \<and> json_load (json_dump (schema s'')) = Inr (schema s''))
   \<and> (schema s = JObj d \<longrightarrow>
        (\<exists>s1. set_mqtt_server server port s = Done s1
           \<and> schema s1 = JObj (AList.update ''port'' (JInt port)
                                 (AList.update ''server'' (JStr server) d)))
      \<and> (\<exists>s2. set_credentials username password s = Done s2
           \<and> schema s2 = JObj (AList.update ''password'' (JStr password)
                                 (AList.update ''username'' (JStr username) d))))"
proof (intro conjI impI)
  assume "set_mqtt_server server port s = Done s'"
  then show "config_file s' = Some (json_dump (schema s'))"
    by (cases "schema s")
      (auto simp: set_mqtt_server_def config_set_def pr_inf_def save_def Let_def)
next
  show "json_load (json_dump (schema s')) = Inr (schema s')" by (simp add: json_dump_def)
next
  assume "set_credentials username password s = Done s''"
  then show "config_file s'' = Some (json_dump (schema s''))"
    by (cases "schema s")
      (auto simp: set_credentials_def config_set_def pr_inf_def save_def Let_def)
next
  show "json_load (json_dump (schema s'')) = Inr (schema s'')" by (simp add: json_dump_def)
next
  assume "schema s = JObj d"
  then show "\<exists>s1. set_mqtt_server server port s = Done s1
           \<and> schema s1 = JObj (AList.update ''port'' (JInt port)
                                 (AList.update ''server'' (JStr server) d))"
    by (simp add: set_mqtt_server_dict save_def)
next
  assume "schema s = JObj d"
  then show "\<exists>s2. set_credentials username password s = Done s2
           \<and> schema s2 = JObj (AList.update ''password'' (JStr password)
                                 (AList.update ''username'' (JStr username) d))"
    by (simp add: set_credentials_dict save_def)
qed

theorem setters_rewrite_whole_record_witness:
  "config_file (state_of (set_credentials ''alice'' ''secret'' (process_start None))) =
     Some (json_dump (schema (state_of (set_credentials ''alice'' ''secret''
       (process_start None)))))
   \<and> config_file (state_of (set_mqtt_server ''test.broker.io'' 1883 (process_start None))) =
     Some (json_dump (schema (state_of (set_mqtt_server ''test.broker.io'' 1883
       (process_start None)))))"
proof -
  let ?s = "process_start None"
  have d: "schema ?s = DEFAULT_CONFIG_SCHEMA" by (simp add: process_start_def)
  have 1: "set_mqtt_server ''test.broker.io'' 1883 ?s =
      Done (state_of (set_mqtt_server ''test.broker.io'' 1883 ?s))"
    using d by (simp add: set_mqtt_server_dict DEFAULT_CONFIG_SCHEMA_def)
  have 2: "set_credentials ''alice'' ''secret'' ?s =
      Done (state_of (set_credentials ''alice'' ''secret'' ?s))"
    using d by (simp add: set_credentials_dict DEFAULT_CONFIG_SCHEMA_def)
  from setters_rewrite_whole_record
    [of "''test.broker.io''" 1883 ?s "state_of (set_mqtt_server ''test.broker.io'' 1883 ?s)"
      "''alice''" "''secret''" "state_of (set_credentials ''alice'' ''secret'' ?s)"]
    1 2
  show ?thesis by blast
qed

section \<open>Publishing to a broker that cannot be reached\<close>

text \<open>
  C7, for a connect that raises. When the \<^verbatim>\<open>connect\<close> of \<^verbatim>\<open>publish\<close> raises, as it does
  when the broker cannot be reached, \<^verbatim>\<open>publish\<close> raises that same exception (the
  specification's \<open>ConnectionError\<close>) and the only call it has made on the client is the
  connect: the publish request is never issued. When the connect returns, \<^verbatim>\<open>publish\<close>
  goes on and issues its request, whatever the broker answers later.
\<close>

theorem publish_fails_when_connect_fails:
  assumes "subscript (schema s) ''server'' = Inr srv"
    and "subscript (schema s) ''port'' = Inr prt"
  shows "(lib (Connect srv prt) = Some e \<longrightarrow>
            publish lib topic message qos retain s =
              Raised e (pr_inf [Lit ''Connecting to MQTT server '', Val srv, Lit '':'', Val prt] s
                         \<lparr>client_calls := client_calls s @ [Connect srv prt]\<rparr>)
            \<and> client_calls (state_of (publish lib topic message qos retain s)) =
                client_calls s @ [Connect srv prt])
         \<and> (lib (Connect srv prt) = None \<longrightarrow>
            client_calls (state_of (publish lib topic message qos retain s)) =
              client_calls s @ [Connect srv prt, Publish topic message qos retain])"
  using assms
  by (simp add: publish_def connect_lines_eq client_do_def Let_def pr_inf_def
      split: option.splits)

theorem publish_fails_when_connect_fails_witness:
  "publish (paho_against Unreachable) ''sensors/temp'' ''21.5'' 0 False (process_start None) =
     Raised ConnectionRefusedError
       \<lparr>config_file = None, schema = DEFAULT_CONFIG_SCHEMA,
        console = [(Tag_INF, [Lit ''Connecting to MQTT server '', Val (JStr ''localhost''),
                              Lit '':'', Val (JInt 1883)])],
        client_calls = [Connect (JStr ''localhost'') (JInt 1883)]\<rparr>"
  using publish_fails_when_connect_fails
    [where s = "process_start None" and lib = "paho_against Unreachable"
      and srv = "JStr ''localhost''" and prt = "JInt 1883" and e = ConnectionRefusedError
      and topic = "''sensors/temp''" and message = "''21.5''" and qos = 0 and retain = False]
  by (simp add: process_start_def DEFAULT_CONFIG_SCHEMA_def paho_against_def pr_inf_def)

text \<open>
  The claim as the specification states it also has \<^verbatim>\<open>publish\<close> fail, with no message
  sent, when the broker rejects the connection. Against a broker that is reached and
  rejects the client in its CONNACK reply (result code 5, not authorised), \<^verbatim>\<open>connect\<close>
  returns, nothing in \<^verbatim>\<open>publish\<close> reads the reply, and \<^verbatim>\<open>publish\<close> completes with its
  request issued.
\<close>

theorem publish_to_rejecting_broker_counterexample:
  "publish (paho_against (Rejects_in_CONNACK 5)) ''sensors/temp'' ''21.5'' 0 False
     (process_start None) =
     Done
       \<lparr>config_file = None, schema = DEFAULT_CONFIG_SCHEMA,
        console = [(Tag_INF, [Lit ''Connecting to MQTT server '', Val (JStr ''localhost''),
                              Lit '':'', Val (JInt 1883)]),
                   (Tag_INF, [Lit ''Publishing message '', Lit ''21.5'', Lit '' to topic '',
                              Lit ''sensors/temp''])],
        client_calls = [Connect (JStr ''localhost'') (JInt 1883),
                        Publish ''sensors/temp'' ''21.5'' 0 False]\<rparr>"
  by (simp add: publish_def connect_lines_def config_get_def client_do_def Let_def pr_inf_def
      process_start_def DEFAULT_CONFIG_SCHEMA_def paho_against_def)

section \<open>Cancelling view_messages\<close>

text \<open>
  C8. Once \<^verbatim>\<open>view_messages\<close> has connected, subscribed and started the background loop, it
  returns if and only if the interrupt signal arrives at some time: if it does, the method
  completes normally, the last call it made on the client is \<^verbatim>\<open>loop_stop\<close>, after
  \<^verbatim>\<open>loop_start\<close>, and the last line it printed is the exit message; if the signal never
  arrives, the method never returns, and waits with the background loop started and not
  stopped.
\<close>

theorem view_messages_cancellation:
  assumes "subscript (schema s) ''server'' = Inr srv"
    and "subscript (schema s) ''port'' = Inr prt"
    and "lib (Connect srv prt) = None"
    and "lib (Subscribe topic) = None"
    and "lib Loop_start = None"
    and "lib Loop_stop = None"
  shows "view_messages lib interrupt topic s =
     (if \<exists>n. interrupt n
      then Returns (Done (s\<lparr>console := console s @
                 [(Tag_INF, [Lit ''Connecting to MQTT server '', Val srv, Lit '':'', Val prt]),
                  (Tag_INF, [Lit ''Viewing messages from topic '', Lit topic]),
                  (Tag_INF, [Lit ''Press Ctrl+C to exit'']),
                  (Tag_INF, [Lit ''Exiting view messages''])],
               client_calls := client_calls s @
                 [Connect srv prt, Subscribe topic, Loop_start, Loop_stop]\<rparr>))
      else Never_returns (s\<lparr>console := console s @
                 [(Tag_INF, [Lit ''Connecting to MQTT server '', Val srv, Lit '':'', Val prt]),
                  (Tag_INF, [Lit ''Viewing messages from topic '', Lit topic]),
                  (Tag_INF, [Lit ''Press Ctrl+C to exit''])],
               client_calls := client_calls s @
                 [Connect srv prt, Subscribe topic, Loop_start]\<rparr>))"
proof -
  let ?s1 = "(pr_inf [Lit ''Connecting to MQTT server '', Val srv, Lit '':'', Val prt] s)
               \<lparr>client_calls := client_calls s @ [Connect srv prt]\<rparr>"
  let ?s2 = "s\<lparr>console := console s @
                 [(Tag_INF, [Lit ''Connecting to MQTT server '', Val srv, Lit '':'', Val prt]),
                  (Tag_INF, [Lit ''Viewing messages from topic '', Lit topic]),
                  (Tag_INF, [Lit ''Press Ctrl+C to exit''])],
               client_calls := client_calls s @ [Connect srv prt, Subscribe topic, Loop_start]\<rparr>"
  have c: "connect_lines lib s = Done ?s1"
    using assms by (simp add: connect_lines_eq client_do_None pr_inf_def)
  have t: "view_messages_try lib topic ?s1 = Done ?s2"
    using assms by (simp add: view_messages_try_def client_do_None pr_inf_def)
  have e: "view_messages_except lib ?s2 =
      Done (s\<lparr>console := console s @
                 [(Tag_INF, [Lit ''Connecting to MQTT server '', Val srv, Lit '':'', Val prt]),
                  (Tag_INF, [Lit ''Viewing messages from topic '', Lit topic]),
                  (Tag_INF, [Lit ''Press Ctrl+C to exit'']),
                  (Tag_INF, [Lit ''Exiting view messages''])],
               client_calls := client_calls s @
                 [Connect srv prt, Subscribe topic, Loop_start, Loop_stop]\<rparr>)"
    using assms by (simp add: view_messages_except_def client_do_None pr_inf_def)
  have v: "view_messages lib interrupt topic s =
      (case wait_loop interrupt 0 of None \<Rightarrow> Never_returns ?s2
       | Some n \<Rightarrow> Returns (view_messages_except lib ?s2))"
    by (simp only: view_messages_def c t outcome.case)
  show ?thesis
  proof (cases "\<exists>n. interrupt n")
    case True
    then have "wait_loop interrupt 0 \<noteq> None" by (simp add: wait_loop_None_iff)
    then obtain j where "wait_loop interrupt 0 = Some j" by blast
    with True show ?thesis by (simp only: v e option.case if_True)
  next
    case False
    then have "wait_loop interrupt 0 = None" by (simp add: wait_loop_None_iff)
    with False show ?thesis by (simp only: v option.case if_False)
  qed
qed

theorem view_messages_cancellation_witness:
  "view_messages never_raises (interrupt_in_round 2) ''sensors/#'' (process_start None) =
     Returns (Done
       \<lparr>config_file = None, schema = DEFAULT_CONFIG_SCHEMA,
        console =
          [(Tag_INF, [Lit ''Connecting to MQTT server '', Val (JStr ''localhost''),
                      Lit '':'', Val (JInt 1883)]),
           (Tag_INF, [Lit ''Viewing messages from topic '', Lit ''sensors/#'']),
           (Tag_INF, [Lit ''Press Ctrl+C to exit'']),
           (Tag_INF, [Lit ''Exiting view messages''])],
        client_calls = [Connect (JStr ''localhost'') (JInt 1883), Subscribe ''sensors/#'',
                        Loop_start, Loop_stop]\<rparr>)"
proof -
  have "\<exists>n. interrupt_in_round 2 n" by (simp add: interrupt_in_round_def)
  with view_messages_cancellation
    [where s = "process_start None" and lib = never_raises
      and srv = "JStr ''localhost''" and prt = "JInt 1883" and topic = "''sensors/#''"
      and interrupt = "interrupt_in_round 2"]
  show ?thesis
    by (simp add: process_start_def DEFAULT_CONFIG_SCHEMA_def never_raises_def)
qed

end
